theory Spec2Isabelle
  imports Complex_Main
begin

section \<open>Python values\<close>

text \<open>
  The program moves dynamically typed values from the source store to the target store.
  A value fetched from the source is \<open>None\<close>, an integer, a float, a text or a byte
  string; the coercion code also tests for booleans. Python integers are unbounded.
  A finite float is represented by the rational number it denotes; the two infinities and
  the not-a-number value are separate constructors.

  Strings are lists of characters with the codes 0 to 255, read as the code points U+0000
  to U+00FF; text with other characters is outside the model. \<open>upper\<close> and \<open>lower\<close> fold the
  ASCII letters only. The program compares their results with the words \<open>INTEGER\<close>, \<open>true\<close>
  and \<open>false\<close>; in the range, no other character lower-cases to an ASCII letter, and the
  only one that upper-cases to ASCII letters is U+00DF, which gives \<open>SS\<close>, letters that
  \<open>INTEGER\<close> does not have. So the comparisons come out as in the program.
\<close>

datatype pyfloat = Finite rat | PosInf | NegInf | NaN

datatype pyval =
    VNone
  | VBool bool
  | VInt int
  | VFloat pyfloat
  | VStr string
  | VBytes string

datatype error =
    TypeError
  | ValueError
  | IndexError
  | AttributeError
  | OverflowError
  | NameError
  | DatabaseError
  | MarkupError

section \<open>String primitives\<close>

definition lower_letters :: string where
  "lower_letters = ''abcdefghijklmnopqrstuvwxyz''"

definition upper_letters :: string where
  "upper_letters = ''ABCDEFGHIJKLMNOPQRSTUVWXYZ''"

definition digit_chars :: string where
  "digit_chars = ''0123456789''"

definition lower_char :: "char \<Rightarrow> char" where
  "lower_char c = (case map_of (zip upper_letters lower_letters) c of Some l \<Rightarrow> l | None \<Rightarrow> c)"

definition upper_char :: "char \<Rightarrow> char" where
  "upper_char c = (case map_of (zip lower_letters upper_letters) c of Some u \<Rightarrow> u | None \<Rightarrow> c)"

text \<open>
  \<^verbatim>\<open>s.lower()\<close>, \<^verbatim>\<open>s.upper()\<close>, \<^verbatim>\<open>s.isdigit()\<close>. For a text, the digit test also accepts
  the superscript digits U+00B2, U+00B3 and U+00B9; for a byte string it accepts the ASCII
  digits only.
\<close>

definition lower :: "string \<Rightarrow> string" where
  "lower s = map lower_char s"

definition upper :: "string \<Rightarrow> string" where
  "upper s = map upper_char s"

definition superscript_digits :: string where
  "superscript_digits = [CHR 0xB2, CHR 0xB3, CHR 0xB9]"

definition isdigit :: "string \<Rightarrow> bool" where
  "isdigit s = (s \<noteq> [] \<and> list_all (\<lambda>c. c \<in> set (digit_chars @ superscript_digits)) s)"

definition bytes_isdigit :: "string \<Rightarrow> bool" where
  "bytes_isdigit s = (s \<noteq> [] \<and> list_all (\<lambda>c. c \<in> set digit_chars) s)"

text \<open>\<^verbatim>\<open>sep.join(xs)\<close>.\<close>

fun join :: "string \<Rightarrow> string list \<Rightarrow> string" where
  "join sep [] = []"
| "join sep [x] = x"
| "join sep (x # y # ys) = x @ sep @ join sep (y # ys)"

text \<open>\<^verbatim>\<open>s.rstrip(chars)\<close>: every trailing character that belongs to \<open>chars\<close> is removed.\<close>

definition rstrip :: "string \<Rightarrow> string \<Rightarrow> string" where
  "rstrip chars s = rev (dropWhile (\<lambda>c. c \<in> set chars) (rev s))"

section \<open>Regular expressions of the type table\<close>

text \<open>
  The patterns of \<^verbatim>\<open>type_mapping\<close> are built from literal text, alternation, sequencing and a
  character class under a counted or starred repetition. \<open>Cls members lo hi\<close> is the class
  with the listed members repeated between \<open>lo\<close> and \<open>hi\<close> times (\<open>None\<close>: unbounded).

  \<open>re_rests p s\<close> lists what is left of \<open>s\<close> after each way of matching \<open>p\<close> at the start of
  \<open>s\<close> under \<^verbatim>\<open>re.IGNORECASE\<close>, longest repetition first, so \<^verbatim>\<open>re.match\<close> succeeds exactly
  when the list is not empty. Under \<^verbatim>\<open>re.IGNORECASE\<close> both the pattern and the subject are
  compared in lower case.
\<close>

datatype regex =
    Lit string
  | Cls string nat "nat option"
  | Seq regex regex
  | Alt regex regex

definition class_ci :: "string \<Rightarrow> char \<Rightarrow> bool" where
  "class_ci members c = (lower_char c \<in> set (map lower_char members))"

fun re_rests :: "regex \<Rightarrow> string \<Rightarrow> string list" where
  "re_rests (Lit p) s =
     (if map lower_char (take (length p) s) = map lower_char p then [drop (length p) s] else [])"
| "re_rests (Cls members lo hi) s =
     (let m = length (takeWhile (class_ci members) s);
          top = (case hi of None \<Rightarrow> m | Some h \<Rightarrow> min h m)
      in map (\<lambda>k. drop k s) (rev [lo ..< Suc top]))"
| "re_rests (Seq a b) s = concat (map (re_rests b) (re_rests a s))"
| "re_rests (Alt a b) s = re_rests a s @ re_rests b s"

definition re_match :: "regex \<Rightarrow> string \<Rightarrow> bool" where
  "re_match p s = (re_rests p s \<noteq> [])"

section \<open>convert_type\<close>

text \<open>
  \<^verbatim>\<open>type_mapping\<close> is a dictionary literal; iteration follows insertion order, so it is an
  association list here. The seven patterns, in the order of the source:
  \<^verbatim>\<open>[A-Z]{0,3}INT[0-9A-Z]*\<close>, \<^verbatim>\<open>TEXT|STRING\<close>, \<^verbatim>\<open>BLOB\<close>, \<^verbatim>\<open>REAL\<close>, \<^verbatim>\<open>NUMERIC\<close>, \<^verbatim>\<open>BOOL\<close>,
  \<^verbatim>\<open>FLOAT\<close>.
\<close>

definition type_mapping :: "(regex \<times> string) list" where
  "type_mapping =
     [(Seq (Cls upper_letters 0 (Some 3))
          (Seq (Lit ''INT'') (Cls (digit_chars @ upper_letters) 0 None)), ''INTEGER''),
      (Alt (Lit ''TEXT'') (Lit ''STRING''), ''TEXT''),
      (Lit ''BLOB'', ''BYTEA''),
      (Lit ''REAL'', ''DOUBLE PRECISION''),
      (Lit ''NUMERIC'', ''NUMERIC''),
      (Lit ''BOOL'', ''BOOLEAN''),
      (Lit ''FLOAT'', ''DOUBLE PRECISION'')]"

fun first_match :: "(regex \<times> string) list \<Rightarrow> string \<Rightarrow> string" where
  "first_match [] sqlite_type = ''TEXT''"
| "first_match ((pattern, pg_type) # rest) sqlite_type =
     (if re_match pattern sqlite_type then pg_type else first_match rest sqlite_type)"

definition convert_type :: "string \<Rightarrow> string" where
  "convert_type sqlite_type = first_match type_mapping sqlite_type"

subsection \<open>The type table as the specification words it\<close>

text \<open>
  A declared type starts with a word, ignoring letter case, when its first characters are
  those of the word. The integer pattern asks for at most three letters, then \<open>INT\<close>;
  the alphanumerics that may follow are optional, so they do not restrict the match.
\<close>

definition is_letter :: "char \<Rightarrow> bool" where
  "is_letter c = (c \<in> set upper_letters \<or> c \<in> set lower_letters)"

definition starts_with_ci :: "string \<Rightarrow> string \<Rightarrow> bool" where
  "starts_with_ci word s = (lower (take (length word) s) = lower word)"

definition integer_pattern :: "string \<Rightarrow> bool" where
  "integer_pattern s =
     list_ex (\<lambda>k. k \<le> length s \<and> list_all is_letter (take k s) \<and> starts_with_ci ''INT'' (drop k s))
       [0, 1, 2, 3]"

definition mapDeclaredType :: "string \<Rightarrow> string" where
  "mapDeclaredType s =
     (if integer_pattern s then ''INTEGER''
      else if starts_with_ci ''TEXT'' s \<or> starts_with_ci ''STRING'' s then ''TEXT''
      else if starts_with_ci ''BLOB'' s then ''BYTEA''
      else if starts_with_ci ''REAL'' s then ''DOUBLE PRECISION''
      else if starts_with_ci ''NUMERIC'' s then ''NUMERIC''
      else if starts_with_ci ''BOOL'' s then ''BOOLEAN''
      else if starts_with_ci ''FLOAT'' s then ''DOUBLE PRECISION''
      else ''TEXT'')"

section \<open>Python conversions used by the program\<close>

text \<open>
  \<^verbatim>\<open>int(x)\<close> on a text or a byte string: surrounding whitespace is dropped, one sign is
  allowed, then decimal digits, where single underscores may separate digits. Anything
  else raises \<^verbatim>\<open>ValueError\<close>. Text and byte strings differ in what counts as whitespace:
  for a text, next-line U+0085 and no-break space U+00A0 are dropped as well.

  The interpreter may limit the number of digits of a decimal string that it converts to
  or from an integer (\<^verbatim>\<open>sys.get_int_max_str_digits()\<close>, 4300 by default where the limit
  exists, 0 for no limit; the interpreter admits no other limit below 640). A conversion
  of more than 640 digits that exceeds a positive limit raises \<^verbatim>\<open>ValueError\<close>. Underscores
  do not count as digits, leading zeros do.
\<close>

definition str_whitespace :: string where
  "str_whitespace =
     [CHR 0x09, CHR 0x0A, CHR 0x0B, CHR 0x0C, CHR 0x0D, CHR '' '', CHR 0x85, CHR 0xA0]"

definition bytes_whitespace :: string where
  "bytes_whitespace = [CHR 0x09, CHR 0x0A, CHR 0x0B, CHR 0x0C, CHR 0x0D, CHR '' '']"

definition strip :: "string \<Rightarrow> string \<Rightarrow> string" where
  "strip chars s = rstrip chars (dropWhile (\<lambda>c. c \<in> set chars) s)"

fun valid_digits :: "string \<Rightarrow> bool" where
  "valid_digits [] = False"
| "valid_digits [c] = (c \<in> set digit_chars)"
| "valid_digits (c # d # r) =
     (c \<in> set digit_chars \<and> (if d = CHR ''_'' then valid_digits r else valid_digits (d # r)))"

definition digit_val :: "char \<Rightarrow> int" where
  "digit_val c = (case map_of (zip digit_chars [0, 1, 2, 3, 4, 5, 6, 7, 8, 9]) c of
                    Some d \<Rightarrow> d | None \<Rightarrow> 0)"

definition digits_value :: "string \<Rightarrow> int" where
  "digits_value s = foldl (\<lambda>acc c. if c = CHR ''_'' then acc else acc * 10 + digit_val c) 0 s"

definition over_digit_limit :: "nat \<Rightarrow> nat \<Rightarrow> bool" where
  "over_digit_limit limit digits = (640 < digits \<and> 0 < limit \<and> limit < digits)"

definition count_digits :: "string \<Rightarrow> nat" where
  "count_digits body = length (filter (\<lambda>c. c \<noteq> CHR ''_'') body)"

definition int_of_text :: "nat \<Rightarrow> string \<Rightarrow> string \<Rightarrow> error + int" where
  "int_of_text limit whitespace s =
     (let t = strip whitespace s;
          (sign, body) = (case t of
                            c # r \<Rightarrow> if c = CHR ''-'' then (- 1, r)
                                     else if c = CHR ''+'' then (1, r) else (1, t)
                          | [] \<Rightarrow> (1, t))
      in if valid_digits body \<and> \<not> over_digit_limit limit (count_digits body)
         then Inr (sign * digits_value body) else Inl ValueError)"

text \<open>\<^verbatim>\<open>int(x)\<close> on a float drops the fractional part, rounding toward zero.\<close>

definition trunc :: "rat \<Rightarrow> int" where
  "trunc r = (if 0 \<le> r then \<lfloor>r\<rfloor> else \<lceil>r\<rceil>)"

text \<open>
  The digit limit, the textual form of a float and of a byte string, the rounding of an
  integer to a float and the parsing of a float from text belong to the interpreter; the
  model takes them as parameters.
\<close>

record pylib =
  int_max_str_digits :: nat
  str_of_float :: "pyfloat \<Rightarrow> string"
  str_of_bytes :: "string \<Rightarrow> string"
  float_of_int :: "int \<Rightarrow> error + pyfloat"
  float_of_text :: "string \<Rightarrow> error + pyfloat"

fun py_int :: "pylib \<Rightarrow> pyval \<Rightarrow> error + int" where
  "py_int lib VNone = Inl TypeError"
| "py_int lib (VBool b) = Inr (if b then 1 else 0)"
| "py_int lib (VInt n) = Inr n"
| "py_int lib (VFloat (Finite r)) = Inr (trunc r)"
| "py_int lib (VFloat NaN) = Inl ValueError"
| "py_int lib (VFloat PosInf) = Inl OverflowError"
| "py_int lib (VFloat NegInf) = Inl OverflowError"
| "py_int lib (VStr s) = int_of_text (int_max_str_digits lib) str_whitespace s"
| "py_int lib (VBytes s) = int_of_text (int_max_str_digits lib) bytes_whitespace s"

text \<open>
  \<^verbatim>\<open>str(x)\<close> of an integer is its decimal numeral, within the digit limit.
\<close>

fun show_nat :: "nat \<Rightarrow> string" where
  "show_nat n = (if n < 10 then [digit_chars ! n] else show_nat (n div 10) @ [digit_chars ! (n mod 10)])"

declare show_nat.simps [simp del]

definition show_int :: "int \<Rightarrow> string" where
  "show_int i = (if i < 0 then CHR ''-'' # show_nat (nat (- i)) else show_nat (nat i))"

fun py_str :: "pylib \<Rightarrow> pyval \<Rightarrow> error + string" where
  "py_str lib VNone = Inr ''None''"
| "py_str lib (VBool b) = Inr (if b then ''True'' else ''False'')"
| "py_str lib (VInt n) =
     (if over_digit_limit (int_max_str_digits lib) (length (show_nat (nat \<bar>n\<bar>)))
      then Inl ValueError else Inr (show_int n))"
| "py_str lib (VFloat f) = Inr (str_of_float lib f)"
| "py_str lib (VStr s) = Inr s"
| "py_str lib (VBytes s) = Inr (str_of_bytes lib s)"

fun py_float :: "pylib \<Rightarrow> pyval \<Rightarrow> error + pyfloat" where
  "py_float lib VNone = Inl TypeError"
| "py_float lib (VBool b) = float_of_int lib (if b then 1 else 0)"
| "py_float lib (VInt n) = float_of_int lib n"
| "py_float lib (VFloat f) = Inr f"
| "py_float lib (VStr s) = float_of_text lib s"
| "py_float lib (VBytes s) = float_of_text lib s"

text \<open>
  \<^verbatim>\<open>abs(value) > bound\<close> for an integer bound. Comparison of a float with an integer is
  exact; \<open>abs\<close> of a text or of a byte string raises \<^verbatim>\<open>TypeError\<close>.
\<close>

fun abs_exceeds :: "int \<Rightarrow> pyval \<Rightarrow> error + bool" where
  "abs_exceeds bound VNone = Inl TypeError"
| "abs_exceeds bound (VBool b) = Inr ((if b then 1 else 0) > bound)"
| "abs_exceeds bound (VInt n) = Inr (\<bar>n\<bar> > bound)"
| "abs_exceeds bound (VFloat (Finite r)) = Inr (\<bar>r\<bar> > of_int bound)"
| "abs_exceeds bound (VFloat NaN) = Inr False"
| "abs_exceeds bound (VFloat PosInf) = Inr True"
| "abs_exceeds bound (VFloat NegInf) = Inr True"
| "abs_exceeds bound (VStr s) = Inl TypeError"
| "abs_exceeds bound (VBytes s) = Inl TypeError"

text \<open>\<^verbatim>\<open>any(abs(value) > bound for value in sample_data)\<close> stops at the first hit.\<close>

fun any_abs_exceeds :: "int \<Rightarrow> pyval list \<Rightarrow> error + bool" where
  "any_abs_exceeds bound [] = Inr False"
| "any_abs_exceeds bound (value # rest) =
     (case abs_exceeds bound value of
        Inl e \<Rightarrow> Inl e
      | Inr hit \<Rightarrow> if hit then Inr True else any_abs_exceeds bound rest)"

section \<open>The source store\<close>

text \<open>
  One row of \<^verbatim>\<open>PRAGMA table_info\<close> is the tuple (cid, name, type, notnull, dflt_value, pk);
  the program reads positions 1 to 5. One row of \<^verbatim>\<open>PRAGMA index_list\<close> is read at positions
  1 (name) and 2 (unique flag); one row of \<^verbatim>\<open>PRAGMA index_info\<close> at position 2 (column name).

  The source store is what its cursor answers to the five queries of the program. The
  store is only read, so the answers are functions of the query's arguments. The queries
  of the first loop are taken to succeed; the query of the second loop, which fetches the
  rows of a table, may raise.
\<close>

record column =
  cid :: int
  cname :: string
  ctype :: string
  notnull :: int
  dflt_value :: "string option"
  pk :: int

record index_entry =
  iseq :: int
  iname :: string
  iunique :: int

record index_key =
  seqno :: int
  kcid :: int
  kname :: string

record source =
  sqlite_master :: "string list"
  table_info :: "string \<Rightarrow> column list"
  index_list :: "string \<Rightarrow> index_entry list"
  index_info :: "string \<Rightarrow> index_key list"
  select_column :: "string \<Rightarrow> string \<Rightarrow> pyval list"
  select_all :: "string \<Rightarrow> error + pyval list list"

definition get_tables :: "source \<Rightarrow> string list" where
  "get_tables cursor = sqlite_master cursor"

definition get_table_schema :: "source \<Rightarrow> string \<Rightarrow> column list" where
  "get_table_schema cursor table_name = table_info cursor table_name"

definition get_unique_constraints :: "source \<Rightarrow> string \<Rightarrow> (string \<times> string list) list" where
  "get_unique_constraints cursor table_name =
     map (\<lambda>index. (iname index, map kname (index_info cursor (iname index))))
       (filter (\<lambda>index. iunique index \<noteq> 0) (index_list cursor table_name))"

section \<open>determine_column_type\<close>

text \<open>
  The result is paired with the list of data queries the call sent to the source cursor,
  so that a call that does not sample is told from one that does.
\<close>

definition determine_column_type ::
  "source \<Rightarrow> string \<Rightarrow> string \<Rightarrow> string \<Rightarrow> string list \<times> (error + string)" where
  "determine_column_type cursor table_name column_name column_type =
     (if upper column_type \<noteq> ''INTEGER'' then ([], Inr (convert_type column_type))
      else
        let query = ''SELECT '' @ column_name @ '' FROM '' @ table_name;
            sample_data = filter (\<lambda>v. v \<noteq> VNone) (select_column cursor table_name column_name)
        in ([query],
            if sample_data = [] then Inr ''INTEGER''
            else case any_abs_exceeds (2 ^ 63 - 1) sample_data of
              Inl e \<Rightarrow> Inl e
            | Inr big \<Rightarrow>
                if big then Inr ''NUMERIC''
                else case any_abs_exceeds (2 ^ 31 - 1) sample_data of
                  Inl e \<Rightarrow> Inl e
                | Inr wide \<Rightarrow> if wide then Inr ''BIGINT'' else Inr ''INTEGER''))"

subsection \<open>Width inference as the specification words it\<close>

definition resolveIntegerWidth :: "int list \<Rightarrow> string" where
  "resolveIntegerWidth sampleValues =
     (if sampleValues = [] then ''INTEGER''
      else if list_ex (\<lambda>v. \<bar>v\<bar> > 2 ^ 63 - 1) sampleValues then ''NUMERIC''
      else if list_ex (\<lambda>v. \<bar>v\<bar> > 2 ^ 31 - 1) sampleValues then ''BIGINT''
      else ''INTEGER'')"

text \<open>A sampled column of integers and nulls, as the cursor returns it.\<close>

definition sampled :: "int option list \<Rightarrow> pyval list" where
  "sampled xs = map (\<lambda>x. case x of None \<Rightarrow> VNone | Some n \<Rightarrow> VInt n) xs"

definition non_null :: "int option list \<Rightarrow> int list" where
  "non_null xs = concat (map (\<lambda>x. case x of None \<Rightarrow> [] | Some n \<Rightarrow> [n]) xs)"

section \<open>create_table_query\<close>

text \<open>
  \<^verbatim>\<open>additional_columns\<close> is a dictionary from a column name to its type and default value;
  the program iterates over it in insertion order.
\<close>

record additional_column =
  atype :: string
  default_value :: pyval

definition constraints_of :: "column \<Rightarrow> string list" where
  "constraints_of col =
     (if pk col \<noteq> 0 then [''PRIMARY KEY''] else []) @
     (if notnull col \<noteq> 0 then [''NOT NULL''] else []) @
     (case dflt_value col of
        None \<Rightarrow> []
      | Some d \<Rightarrow> if d \<noteq> [] then [''DEFAULT '' @ d] else [])"

fun native_columns :: "source \<Rightarrow> string \<Rightarrow> column list \<Rightarrow> string \<Rightarrow> error + string" where
  "native_columns cursor table_name [] query = Inr query"
| "native_columns cursor table_name (col # rest) query =
     (case snd (determine_column_type cursor table_name (cname col) (ctype col)) of
        Inl e \<Rightarrow> Inl e
      | Inr pg_col_type \<Rightarrow>
          let constraints_str = join '' '' (constraints_of col);
              constraints_str = (if constraints_str \<noteq> [] then '' '' @ constraints_str
                                 else constraints_str)
          in native_columns cursor table_name rest
               (query @ cname col @ '' '' @ pg_col_type @ constraints_str @ '', ''))"

fun extra_columns :: "(string \<times> additional_column) list \<Rightarrow> string \<Rightarrow> string" where
  "extra_columns [] query = query"
| "extra_columns ((col_name, col_info) # rest) query =
     extra_columns rest (query @ col_name @ '' '' @ convert_type (atype col_info) @ '', '')"

fun unique_clauses :: "(string \<times> string list) list \<Rightarrow> string \<Rightarrow> string" where
  "unique_clauses [] query = query"
| "unique_clauses ((index_name, unique_columns) # rest) query =
     unique_clauses rest (query @ ''UNIQUE ('' @ join '', '' unique_columns @ ''), '')"

definition create_table_query ::
  "source \<Rightarrow> string \<Rightarrow> column list \<Rightarrow> (string \<times> additional_column) list \<Rightarrow>
   (string \<times> string list) list \<Rightarrow> error + string" where
  "create_table_query cursor table_name columns additional_columns unique_constraints =
     (case native_columns cursor table_name columns
             (''CREATE TABLE IF NOT EXISTS '' @ table_name @ '' ('') of
        Inl e \<Rightarrow> Inl e
      | Inr query \<Rightarrow>
          Inr (rstrip '', ''
                 (unique_clauses unique_constraints (extra_columns additional_columns query))
               @ '');''))"

section \<open>insert_data\<close>

text \<open>
  The body of the inner loop for one position whose value is not \<open>None\<close>; \<open>col_type\<close> is
  \<^verbatim>\<open>convert_type(col[2])\<close>. The branches are those of the source, in its order. In the
  \<open>BOOLEAN\<close> branch a float has no \<^verbatim>\<open>isdigit\<close> method, and the lower-cased byte string
  is never equal to one of the two texts. A text that passes the digit test is handed to
  \<^verbatim>\<open>int\<close>, which raises for a superscript digit and for a text over the digit limit.
\<close>

definition coerce_value :: "pylib \<Rightarrow> string \<Rightarrow> pyval \<Rightarrow> error + pyval" where
  "coerce_value lib col_type v =
     (if col_type = ''BOOLEAN'' then
        (case v of
           VBool b \<Rightarrow> Inr v
         | VInt n \<Rightarrow> Inr (VBool (n \<noteq> 0))
         | VStr s \<Rightarrow>
             if isdigit s then
               (case py_int lib v of Inl e \<Rightarrow> Inl e | Inr n \<Rightarrow> Inr (VBool (n \<noteq> 0)))
             else if lower s \<in> set [''true'', ''false''] then Inr (VBool (lower s = ''true''))
             else Inr v
         | VBytes s \<Rightarrow>
             if bytes_isdigit s then
               (case py_int lib v of Inl e \<Rightarrow> Inl e | Inr n \<Rightarrow> Inr (VBool (n \<noteq> 0)))
             else Inr v
         | _ \<Rightarrow> Inl AttributeError)
      else if col_type = ''TEXT'' then
        (case py_str lib v of Inl e \<Rightarrow> Inl e | Inr s \<Rightarrow> Inr (VStr s))
      else if col_type \<in> set [''INTEGER'', ''BIGINT'', ''NUMERIC''] then
        (case py_int lib v of Inl e \<Rightarrow> Inl e | Inr n \<Rightarrow> Inr (VInt n))
      else if col_type = ''DOUBLE PRECISION'' then
        (case py_float lib v of Inl e \<Rightarrow> Inl e | Inr f \<Rightarrow> Inr (VFloat f))
      else Inr v)"

text \<open>
  \<^verbatim>\<open>for i, col in enumerate(columns)\<close>: position \<open>i\<close> of the row is read, which raises
  \<^verbatim>\<open>IndexError\<close> when the row is shorter than the column list, and overwritten in place.
  An error comes with the row as it is when the exception is raised, which is what the
  handler prints.
\<close>

fun coerce_columns ::
  "pylib \<Rightarrow> column list \<Rightarrow> nat \<Rightarrow> pyval list \<Rightarrow> (error \<times> pyval list) + pyval list" where
  "coerce_columns lib [] i row = Inr row"
| "coerce_columns lib (col # rest) i row =
     (if length row \<le> i then Inl (IndexError, row)
      else if row ! i = VNone then coerce_columns lib rest (Suc i) row
      else case coerce_value lib (convert_type (ctype col)) (row ! i) of
             Inl e \<Rightarrow> Inl (e, row)
           | Inr v \<Rightarrow> coerce_columns lib rest (Suc i) (row[i := v]))"

text \<open>
  The statements of the \<^verbatim>\<open>try\<close> block before the insert: the literal text \<open>None\<close> becomes
  \<open>None\<close>, the native positions are coerced, the default values of the additional columns
  are appended.
\<close>

definition none_literal :: "pyval list \<Rightarrow> pyval list" where
  "none_literal row = map (\<lambda>v. if v \<noteq> VStr ''None'' then v else VNone) row"

definition coerce_row ::
  "pylib \<Rightarrow> column list \<Rightarrow> (string \<times> additional_column) list \<Rightarrow> pyval list \<Rightarrow>
   (error \<times> pyval list) + pyval list" where
  "coerce_row lib columns additional_columns row =
     (case coerce_columns lib columns 0 (none_literal row) of
        Inl failure \<Rightarrow> Inl failure
      | Inr row' \<Rightarrow> Inr (row' @ map (\<lambda>(col_name, col_info). default_value col_info) additional_columns))"

definition insert_query :: "string \<Rightarrow> column list \<Rightarrow> (string \<times> additional_column) list \<Rightarrow> string" where
  "insert_query table_name columns additional_columns =
     (let col_names = join '', '' (map cname columns @ map fst additional_columns);
          placeholders = join '', '' (replicate (length columns + length additional_columns) ''%s'')
      in ''INSERT INTO '' @ table_name @ '' ('' @ col_names @ '') VALUES ('' @ placeholders @ '')'')"

text \<open>
  What the target connection has been asked to do, in order. \<open>Executed\<close> records a
  statement the target accepted, with its parameters when it has some; \<open>RowError\<close> records
  that the handler of the \<^verbatim>\<open>try\<close> block was entered, with the exception it caught. Whether
  the target accepts a statement is a parameter of the model, and may depend on
  everything that happened before. Connecting, commit, rollback, close and the prompt do
  not fail in the model, and the progress bars are left out.
\<close>

datatype event =
    Executed string "pyval list option"
  | Commit
  | Rollback
  | RowError error
  | Close

type_synonym target = "event list \<Rightarrow> string \<Rightarrow> pyval list option \<Rightarrow> bool"

text \<open>
  The program prints through the console of a library outside the repository, which
  reads its argument as markup and raises \<^verbatim>\<open>MarkupError\<close> for some texts, such as one that
  holds a closing tag without an opening one. The five things the program prints are the
  messages below: the table names, the heading of the statements, a statement, the row
  that failed, and the traceback of the exception that the row raised. Whether the console
  prints a message or raises is a parameter of the model, and may depend on everything
  that happened before.
\<close>

datatype message =
    TablesForConvert "string list"
  | CreateTableQueries
  | Query string
  | ErrorInsertingRow "pyval list"
  | ErrorTraceback error "pyval list"

type_synonym console = "event list \<Rightarrow> message \<Rightarrow> bool"

text \<open>
  How a piece of the program ends: it returns, it calls \<^verbatim>\<open>exit\<close>, or an exception leaves
  it. A process that returns from the main function ends with status 0; one that dies of
  an exception ends with status 1.
\<close>

datatype outcome = Returned | Exit nat | Uncaught error


text \<open>
  The handler of the \<^verbatim>\<open>try\<close> block: it prints the row, prints the traceback, rolls back
  and exits with status 1. When a print raises, the exception leaves the handler and the
  statements after the print are not reached.
\<close>

definition handle_row_error ::
  "console \<Rightarrow> event list \<Rightarrow> error \<Rightarrow> pyval list \<Rightarrow> event list \<times> outcome" where
  "handle_row_error print evs e row =
     (let evs = evs @ [RowError e]
      in if \<not> print evs (ErrorInsertingRow row) then (evs, Uncaught MarkupError)
         else if \<not> print evs (ErrorTraceback e row) then (evs, Uncaught MarkupError)
         else (evs @ [Rollback], Exit 1))"

text \<open>The loop over the rows of one table; \<open>j\<close> is the index \<^verbatim>\<open>enumerate\<close> gives the row.\<close>

fun insert_rows ::
  "target \<Rightarrow> console \<Rightarrow> pylib \<Rightarrow> string \<Rightarrow> column list \<Rightarrow>
   (string \<times> additional_column) list \<Rightarrow> nat \<Rightarrow> pyval list list \<Rightarrow> event list \<Rightarrow>
   event list \<times> outcome" where
  "insert_rows pg print lib query columns additional_columns j [] evs = (evs, Returned)"
| "insert_rows pg print lib query columns additional_columns j (row # rows) evs =
     (case coerce_row lib columns additional_columns row of
        Inl (e, row') \<Rightarrow> handle_row_error print evs e row'
      | Inr row' \<Rightarrow>
          if \<not> pg evs query (Some row') then handle_row_error print evs DatabaseError row'
          else
            let evs = evs @ [Executed query (Some row')];
                evs = (if j mod 16384 = 0 then evs @ [Commit] else evs)
            in insert_rows pg print lib query columns additional_columns (Suc j) rows evs)"

definition insert_data ::
  "target \<Rightarrow> console \<Rightarrow> pylib \<Rightarrow> string \<Rightarrow> column list \<Rightarrow> pyval list list \<Rightarrow>
   (string \<times> additional_column) list \<Rightarrow> event list \<Rightarrow> event list \<times> outcome" where
  "insert_data pg print lib table_name columns rows additional_columns evs =
     (case insert_rows pg print lib (insert_query table_name columns additional_columns)
             columns additional_columns 0 rows evs of
        (evs', Returned) \<Rightarrow> (evs' @ [Commit], Returned)
      | (evs', stopped) \<Rightarrow> (evs', stopped))"

section \<open>sqlite_to_postgresql\<close>

text \<open>
  The first loop builds the statements of all tables. Its loop variable \<open>columns\<close> stays
  bound after the loop to the schema of the table visited last, and is unbound when there
  was no table.
\<close>

fun plan_tables ::
  "source \<Rightarrow> (string \<times> additional_column) list \<Rightarrow> string list \<Rightarrow>
   column list option \<Rightarrow> string list \<Rightarrow> error + (column list option \<times> string list)" where
  "plan_tables cursor additional_columns [] columns create_table_queries =
     Inr (columns, create_table_queries)"
| "plan_tables cursor additional_columns (table_name # rest) columns create_table_queries =
     (let columns = get_table_schema cursor table_name;
          unique_constraints = get_unique_constraints cursor table_name
      in case create_table_query cursor table_name columns additional_columns unique_constraints of
           Inl e \<Rightarrow> Inl e
         | Inr create_table_query_str \<Rightarrow>
             plan_tables cursor additional_columns rest (Some columns)
               (create_table_queries @ [create_table_query_str]))"

text \<open>
  The second loop creates and fills one table after the other. The call of
  \<^verbatim>\<open>insert_data\<close> passes the variable \<open>columns\<close> left by the first loop.
\<close>

fun copy_tables ::
  "source \<Rightarrow> target \<Rightarrow> console \<Rightarrow> pylib \<Rightarrow> (string \<times> additional_column) list \<Rightarrow>
   column list option \<Rightarrow> (string \<times> string) list \<Rightarrow> event list \<Rightarrow> event list \<times> outcome" where
  "copy_tables cursor pg print lib additional_columns columns [] evs = (evs, Returned)"
| "copy_tables cursor pg print lib additional_columns columns
     ((table_name, create_table_query_str) # rest) evs =
     (if \<not> pg evs create_table_query_str None then (evs, Uncaught DatabaseError)
      else
        let evs = evs @ [Executed create_table_query_str None]
        in case select_all cursor table_name of
             Inl e \<Rightarrow> (evs, Uncaught e)
           | Inr rows \<Rightarrow>
               if rows \<noteq> [] then
                 (case columns of
                    None \<Rightarrow> (evs, Uncaught NameError)
                  | Some cols \<Rightarrow>
                      (case insert_data pg print lib table_name cols rows additional_columns evs of
                         (evs', Returned) \<Rightarrow>
                           copy_tables cursor pg print lib additional_columns columns rest evs'
                       | (evs', stopped) \<Rightarrow> (evs', stopped)))
               else copy_tables cursor pg print lib additional_columns columns rest evs)"

text \<open>
  The prints between the two loops: the heading, then each statement. The first that
  raises ends the program.
\<close>

definition print_queries :: "console \<Rightarrow> string list \<Rightarrow> bool" where
  "print_queries print create_table_queries =
     (print [] CreateTableQueries \<and> list_all (\<lambda>query. print [] (Query query)) create_table_queries)"

text \<open>\<open>answer\<close> is the line the user types at the confirmation prompt.\<close>

definition sqlite_to_postgresql ::
  "source \<Rightarrow> target \<Rightarrow> console \<Rightarrow> pylib \<Rightarrow> (string \<times> additional_column) list \<Rightarrow> string \<Rightarrow>
   event list \<times> outcome" where
  "sqlite_to_postgresql cursor pg print lib additional_columns answer =
     (let tables = get_tables cursor
      in if \<not> print [] (TablesForConvert tables) then ([], Uncaught MarkupError)
         else case plan_tables cursor additional_columns tables None [] of
           Inl e \<Rightarrow> ([], Uncaught e)
         | Inr (columns, create_table_queries) \<Rightarrow>
             if \<not> print_queries print create_table_queries then ([], Uncaught MarkupError)
             else if answer \<noteq> ''y'' then ([Close], Returned)
             else
               (case copy_tables cursor pg print lib additional_columns columns
                       (zip tables create_table_queries) [] of
                  (evs, Returned) \<Rightarrow> (evs @ [Close], Returned)
                | (evs, stopped) \<Rightarrow> (evs, stopped)))"

section \<open>The statement of DDLBuilder as the specification words it\<close>

text \<open>
  One clause per native column: name, resolved type, then \<open>PRIMARY KEY\<close>, \<open>NOT NULL\<close> and
  \<open>DEFAULT\<close> with the literal of the source, each when it applies. One clause per extra
  column: name and type. One clause per unique constraint. The clauses are separated by
  comma and blank, in that order, between the opening and the closing of the statement.
\<close>

definition column_clause :: "(column \<Rightarrow> string) \<Rightarrow> column \<Rightarrow> string" where
  "column_clause resolved col =
     cname col @ '' '' @ resolved col
     @ (if pk col \<noteq> 0 then '' PRIMARY KEY'' else [])
     @ (if notnull col \<noteq> 0 then '' NOT NULL'' else [])
     @ (case dflt_value col of
          None \<Rightarrow> []
        | Some d \<Rightarrow> if d \<noteq> [] then '' DEFAULT '' @ d else [])"

definition extra_clause :: "string \<times> additional_column \<Rightarrow> string" where
  "extra_clause extra = fst extra @ '' '' @ convert_type (atype (snd extra))"

definition unique_clause :: "string \<times> string list \<Rightarrow> string" where
  "unique_clause uc = ''UNIQUE ('' @ join '', '' (snd uc) @ '')''"

definition buildCreateTable ::
  "string \<Rightarrow> (column \<Rightarrow> string) \<Rightarrow> column list \<Rightarrow> (string \<times> additional_column) list \<Rightarrow>
   (string \<times> string list) list \<Rightarrow> string" where
  "buildCreateTable table_name resolved columns extraColumns uniqueConstraints =
     ''CREATE TABLE IF NOT EXISTS '' @ table_name @ '' (''
     @ join '', '' (map (column_clause resolved) columns
                    @ map extra_clause extraColumns
                    @ map unique_clause uniqueConstraints)
     @ '');''"

text \<open>
  \<^verbatim>\<open>rstrip(', ')\<close> removes the separator after the last clause. It would also remove commas
  and blanks that end the last clause itself; the only clause that can end so is that of
  a native column with a default literal, when no extra column and no unique constraint
  follows it.
\<close>

definition default_ends_clean :: "column \<Rightarrow> bool" where
  "default_ends_clean col =
     (case dflt_value col of
        None \<Rightarrow> True
      | Some d \<Rightarrow> d = [] \<or> last d \<notin> set '', '')"

definition ends_clean :: "string \<Rightarrow> bool" where
  "ends_clean clause = (clause \<noteq> [] \<and> last clause \<notin> set '', '')"

section \<open>Reading the record of a run\<close>

text \<open>
  A record is free of row errors when the handler of the \<^verbatim>\<open>try\<close> block was never entered.
  It is that of an aborted run when its last two entries are a row error and the
  rollback, and nothing before them is a row error. It is that of a run whose report
  failed when its last entry is a row error, and nothing before it is one.
\<close>

fun is_row_error :: "event \<Rightarrow> bool" where
  "is_row_error (RowError e) = True"
| "is_row_error ev = False"

definition no_row_error :: "event list \<Rightarrow> bool" where
  "no_row_error evs = list_all (\<lambda>ev. \<not> is_row_error ev) evs"




section \<open>Example stores\<close>

text \<open>
  An interpreter library for the examples, with the digit limit 4300; none of the
  examples converts a float or a byte string. A column without constraints; a target that
  accepts every statement; a console that prints every message; a source with the single
  table \<open>t\<close>, whose single column \<open>n\<close> has the given declared type and holds the given values; and a
  source with two tables, \<open>t1\<close> with a text column \<open>a\<close> and one row, and \<open>t2\<close> with an
  integer column \<open>n\<close> and no row.
\<close>

definition example_lib :: pylib where
  "example_lib =
     \<lparr>int_max_str_digits = 4300,
      str_of_float = (\<lambda>f. ''0.0''),
      str_of_bytes = (\<lambda>b. ''b'' @ b),
      float_of_int = (\<lambda>n. Inr (Finite (of_int n))),
      float_of_text = (\<lambda>s. Inl ValueError)\<rparr>"

definition plain_column :: "string \<Rightarrow> string \<Rightarrow> column" where
  "plain_column name declared =
     \<lparr>cid = 0, cname = name, ctype = declared, notnull = 0, dflt_value = None, pk = 0\<rparr>"

definition accept_all :: target where
  "accept_all evs query params = True"

definition print_all :: console where
  "print_all evs msg = True"


definition single_column :: "string \<Rightarrow> pyval list \<Rightarrow> source" where
  "single_column declared column_values =
     \<lparr>sqlite_master = [''t''],
      table_info = (\<lambda>table_name.
         [\<lparr>cid = 0, cname = ''n'', ctype = declared, notnull = 0, dflt_value = None, pk = 0\<rparr>]),
      index_list = (\<lambda>table_name. []),
      index_info = (\<lambda>index_name. []),
      select_column = (\<lambda>table_name column_name. column_values),
      select_all = (\<lambda>table_name. Inr (map (\<lambda>v. [v]) column_values))\<rparr>"

definition two_tables :: source where
  "two_tables =
     \<lparr>sqlite_master = [''t1'', ''t2''],
      table_info = (\<lambda>table_name.
         if table_name = ''t1''
         then [\<lparr>cid = 0, cname = ''a'', ctype = ''TEXT'', notnull = 0, dflt_value = None, pk = 0\<rparr>]
         else [\<lparr>cid = 0, cname = ''n'', ctype = ''INTEGER'', notnull = 0, dflt_value = None, pk = 0\<rparr>]),
      index_list = (\<lambda>table_name. []),
      index_info = (\<lambda>index_name. []),
      select_column = (\<lambda>table_name column_name. []),
      select_all = (\<lambda>table_name. Inr (if table_name = ''t1'' then [[VStr ''007'']] else []))\<rparr>"

section \<open>The type table\<close>

lemmas char_tables =
  lower_char_def upper_char_def lower_letters_def upper_letters_def digit_chars_def

lemma class_letters: "class_ci upper_letters c \<longleftrightarrow> is_letter c"
  unfolding class_ci_def is_letter_def
  by (simp add: lower_char_def lower_letters_def upper_letters_def)

lemma re_match_Lit: "re_match (Lit w) s \<longleftrightarrow> starts_with_ci w s"
  by (simp add: re_match_def starts_with_ci_def lower_def)

lemma re_match_Alt: "re_match (Alt a b) s \<longleftrightarrow> re_match a s \<or> re_match b s"
  by (simp add: re_match_def)

lemma re_match_Seq: "re_match (Seq a b) s \<longleftrightarrow> (\<exists>t \<in> set (re_rests a s). re_match b t)"
  by (auto simp add: re_match_def)

lemma re_match_star: "re_match (Cls ms 0 None) s"
  by (simp add: re_match_def Let_def)

lemma re_match_Lit_star: "re_match (Seq (Lit w) (Cls ms 0 None)) s \<longleftrightarrow> starts_with_ci w s"
  by (simp add: re_match_Seq re_match_star starts_with_ci_def lower_def)

lemma takeWhile_len:
  "k \<le> length (takeWhile P s) \<longleftrightarrow> k \<le> length s \<and> list_all P (take k s)"
proof (induction s arbitrary: k)
  case Nil
  then show ?case by simp
next
  case (Cons a s)
  show ?case
  proof (cases k)
    case 0
    then show ?thesis by simp
  next
    case (Suc n)
    with Cons show ?thesis by simp
  qed
qed

lemma re_match_upto:
  "re_match (Seq (Cls ms 0 (Some h)) b) s \<longleftrightarrow>
     (\<exists>k\<le>h. k \<le> length s \<and> list_all (class_ci ms) (take k s) \<and> re_match b (drop k s))"
proof -
  let ?m = "length (takeWhile (class_ci ms) s)"
  have "set (re_rests (Cls ms 0 (Some h)) s) = (\<lambda>k. drop k s) ` {k. k \<le> min h ?m}"
    by (auto simp add: Let_def simp del: upt_Suc)
  then have "re_match (Seq (Cls ms 0 (Some h)) b) s \<longleftrightarrow> (\<exists>k. k \<le> min h ?m \<and> re_match b (drop k s))"
    unfolding re_match_Seq by auto
  also have "\<dots> \<longleftrightarrow> (\<exists>k\<le>h. k \<le> ?m \<and> re_match b (drop k s))"
    by auto
  finally show ?thesis
    unfolding takeWhile_len by auto
qed

lemma re_match_integer:
  "re_match (Seq (Cls upper_letters 0 (Some 3))
          (Seq (Lit ''INT'') (Cls (digit_chars @ upper_letters) 0 None))) s \<longleftrightarrow> integer_pattern s"
proof -
  have cl: "class_ci upper_letters = is_letter"
    by (rule ext) (rule class_letters)
  have k3: "\<And>k::nat. k \<le> 3 \<longleftrightarrow> k = 0 \<or> k = 1 \<or> k = 2 \<or> k = 3" by arith
  show ?thesis
    unfolding re_match_upto re_match_Lit_star cl integer_pattern_def k3
    by auto
qed

lemma convert_type_spec: "convert_type s = mapDeclaredType s"
  unfolding convert_type_def type_mapping_def mapDeclaredType_def first_match.simps
    re_match_integer re_match_Alt re_match_Lit
  by simp

lemma convert_type_range:
  "convert_type s \<in> set [''INTEGER'', ''TEXT'', ''BYTEA'', ''DOUBLE PRECISION'', ''NUMERIC'', ''BOOLEAN'']"
  unfolding convert_type_spec mapDeclaredType_def by simp

text \<open>
  Claim C6. \<^verbatim>\<open>convert_type\<close> is defined on every declared-type string and tests the
  patterns in their order, ignoring letter case, each at the start of the string: the
  integer pattern, then \<open>TEXT\<close> or \<open>STRING\<close>, \<open>BLOB\<close>, \<open>REAL\<close>, \<open>NUMERIC\<close>, \<open>BOOL\<close>, \<open>FLOAT\<close>; the
  first that matches decides, and a string that matches none maps to \<open>TEXT\<close>. The result
  is always one of the six target type names.
\<close>

theorem convert_type_first_match:
  "convert_type s = mapDeclaredType s
   \<and> convert_type s \<in> set [''INTEGER'', ''TEXT'', ''BYTEA'', ''DOUBLE PRECISION'', ''NUMERIC'', ''BOOLEAN'']"
  using convert_type_spec convert_type_range by simp

theorem convert_type_first_match_witness:
  "convert_type ''bigint'' = ''INTEGER'' \<and> convert_type ''String(8)'' = ''TEXT''
   \<and> convert_type ''TINYINT'' = ''TEXT''"
  using convert_type_first_match [of "''bigint''"] convert_type_first_match [of "''String(8)''"]
    convert_type_first_match [of "''TINYINT''"]
  by (simp add: mapDeclaredType_def integer_pattern_def starts_with_ci_def is_letter_def
      lower_def char_tables)

section \<open>Width inference\<close>

lemma any_abs_exceeds_sampled:
  "any_abs_exceeds bound (filter (\<lambda>v. v \<noteq> VNone) (sampled xs)) =
     Inr (list_ex (\<lambda>v. \<bar>v\<bar> > bound) (non_null xs))"
  by (induction xs) (auto simp add: sampled_def non_null_def split: option.splits)

lemma sampled_empty:
  "filter (\<lambda>v. v \<noteq> VNone) (sampled xs) = [] \<longleftrightarrow> non_null xs = []"
  by (induction xs) (auto simp add: sampled_def non_null_def split: option.splits)

lemma determine_INTEGER:
  assumes "upper column_type = ''INTEGER''"
      and "select_column cursor table_name column_name = sampled xs"
  shows "determine_column_type cursor table_name column_name column_type =
           ([''SELECT '' @ column_name @ '' FROM '' @ table_name],
            Inr (resolveIntegerWidth (non_null xs)))"
  using assms
  by (simp add: determine_column_type_def Let_def any_abs_exceeds_sampled sampled_empty
      resolveIntegerWidth_def)

lemma upper_INTEGER: "upper ''INTEGER'' = ''INTEGER''"
  by (simp add: upper_def upper_char_def lower_letters_def upper_letters_def)

text \<open>
  Claim C5. For a column declared \<open>INTEGER\<close> whose sampled values are integers and nulls,
  the resolved type is \<open>INTEGER\<close> when there is no non-null sample, \<open>NUMERIC\<close> when the
  absolute value of some sample exceeds \<open>2^63 - 1\<close>, otherwise \<open>BIGINT\<close> when the absolute
  value of some sample exceeds \<open>2^31 - 1\<close>, otherwise \<open>INTEGER\<close>.
\<close>

theorem integer_width_inference:
  assumes "upper column_type = ''INTEGER''"
      and "select_column cursor table_name column_name = sampled xs"
  shows "snd (determine_column_type cursor table_name column_name column_type) =
           Inr (resolveIntegerWidth (non_null xs))"
  using determine_INTEGER [OF assms] by simp

text \<open>The four samples of the specification: none, \<open>[5]\<close>, \<open>[2^31]\<close> and \<open>[2^63]\<close>.\<close>

theorem integer_width_inference_witness:
  "snd (determine_column_type (single_column ''INTEGER'' (sampled [])) ''t'' ''n'' ''INTEGER'')
     = Inr ''INTEGER''
   \<and> snd (determine_column_type (single_column ''INTEGER'' (sampled [Some 5])) ''t'' ''n'' ''INTEGER'')
     = Inr ''INTEGER''
   \<and> snd (determine_column_type (single_column ''INTEGER'' (sampled [Some (2 ^ 31)])) ''t'' ''n'' ''INTEGER'')
     = Inr ''BIGINT''
   \<and> snd (determine_column_type (single_column ''INTEGER'' (sampled [Some (2 ^ 63)])) ''t'' ''n'' ''INTEGER'')
     = Inr ''NUMERIC''"
proof -
  have sel: "\<And>xs. select_column (single_column ''INTEGER'' (sampled xs)) ''t'' ''n'' = sampled xs"
    by (simp add: single_column_def)
  show ?thesis
    using integer_width_inference [OF upper_INTEGER sel, of "[]"]
      integer_width_inference [OF upper_INTEGER sel, of "[Some 5]"]
      integer_width_inference [OF upper_INTEGER sel, of "[Some (2 ^ 31)]"]
      integer_width_inference [OF upper_INTEGER sel, of "[Some (2 ^ 63)]"]
    by (simp add: resolveIntegerWidth_def non_null_def)
qed

section \<open>Which columns are sampled\<close>

lemma upper_I: "upper_char c = CHR ''I'' \<Longrightarrow> lower_char c = CHR ''i''"
  by (simp add: char_tables split: if_splits)

lemma upper_N: "upper_char c = CHR ''N'' \<Longrightarrow> lower_char c = CHR ''n''"
  by (simp add: char_tables split: if_splits)

lemma upper_T: "upper_char c = CHR ''T'' \<Longrightarrow> lower_char c = CHR ''t''"
  by (simp add: char_tables split: if_splits)

lemma upper_INTEGER_pattern:
  assumes "upper s = ''INTEGER''"
  shows "integer_pattern s"
proof -
  from assms obtain a b c r where s: "s = a # b # c # r"
    and u: "upper_char a = CHR ''I''" "upper_char b = CHR ''N''" "upper_char c = CHR ''T''"
    by (auto simp add: upper_def)
  have "starts_with_ci ''INT'' s"
    using upper_I [OF u(1)] upper_N [OF u(2)] upper_T [OF u(3)]
    by (simp add: s starts_with_ci_def lower_def char_tables)
  then show ?thesis by (simp add: integer_pattern_def)
qed

lemma determine_other:
  "upper column_type \<noteq> ''INTEGER'' \<Longrightarrow>
     determine_column_type cursor table_name column_name column_type
       = ([], Inr (mapDeclaredType column_type))"
  by (simp add: determine_column_type_def convert_type_spec)

text \<open>
  Claim C2, as the code has it. The guard of \<^verbatim>\<open>determine_column_type\<close> compares the
  upper-cased declared type with the word \<open>INTEGER\<close>. A column whose declared type is
  \<open>INTEGER\<close> in some letter case is sampled, and its type is the width inferred from the
  samples. Every other column, also one whose declared type matches the integer pattern
  (\<open>INT\<close>, \<open>BIGINT\<close>, \<open>INT8\<close>), is not sampled and gets the type of the pattern table. In
  particular no column whose declared type fails the integer pattern is sampled.
\<close>

theorem sampling_only_for_INTEGER:
  "(upper column_type \<noteq> ''INTEGER'' \<longrightarrow>
      determine_column_type cursor table_name column_name column_type
        = ([], Inr (mapDeclaredType column_type)))
   \<and> (upper column_type = ''INTEGER'' \<and> select_column cursor table_name column_name = sampled xs \<longrightarrow>
      determine_column_type cursor table_name column_name column_type
        = ([''SELECT '' @ column_name @ '' FROM '' @ table_name],
           Inr (resolveIntegerWidth (non_null xs))))
   \<and> (\<not> integer_pattern column_type \<longrightarrow>
      fst (determine_column_type cursor table_name column_name column_type) = [])"
  using determine_other determine_INTEGER upper_INTEGER_pattern
  by (metis fst_conv)

theorem sampling_only_for_INTEGER_witness:
  "determine_column_type (single_column ''BIGINT'' (sampled [Some (2 ^ 40)])) ''t'' ''n'' ''BIGINT''
       = ([], Inr ''INTEGER'')
   \<and> determine_column_type (single_column ''Integer'' (sampled [None, Some (2 ^ 40)])) ''t'' ''n'' ''Integer''
       = ([''SELECT n FROM t''], Inr ''BIGINT'')
   \<and> fst (determine_column_type (single_column ''VARCHAR'' (sampled [Some 1])) ''t'' ''n'' ''VARCHAR'') = []"
  using sampling_only_for_INTEGER [of "''BIGINT''"
      "single_column ''BIGINT'' (sampled [Some (2 ^ 40)])" "''t''" "''n''" "[]"]
    sampling_only_for_INTEGER [of "''Integer''"
      "single_column ''Integer'' (sampled [None, Some (2 ^ 40)])" "''t''" "''n''" "[None, Some (2 ^ 40)]"]
    sampling_only_for_INTEGER [of "''VARCHAR''"
      "single_column ''VARCHAR'' (sampled [Some 1])" "''t''" "''n''" "[]"]
  by (simp add: single_column_def mapDeclaredType_def
      integer_pattern_def starts_with_ci_def is_letter_def lower_def upper_def char_tables
      resolveIntegerWidth_def non_null_def)

text \<open>
  The claim as stated fails for \<open>BIGINT\<close>: the declared type matches the integer pattern,
  the column holds \<open>2^40\<close>, for which width inference answers \<open>BIGINT\<close>, and yet no query
  is sent and the column is given the type \<open>INTEGER\<close>.
\<close>

theorem bigint_column_not_sampled:
  "integer_pattern ''BIGINT''
   \<and> determine_column_type (single_column ''BIGINT'' [VInt (2 ^ 40)]) ''t'' ''n'' ''BIGINT''
       = ([], Inr ''INTEGER'')
   \<and> resolveIntegerWidth [2 ^ 40] = ''BIGINT''"
  by (simp add: determine_column_type_def convert_type_spec mapDeclaredType_def
      integer_pattern_def starts_with_ci_def is_letter_def lower_def upper_def char_tables
      resolveIntegerWidth_def)

section \<open>Coercion of one value\<close>

lemma ascii_digits_valid:
  "s \<noteq> [] \<Longrightarrow> list_all (\<lambda>c. c \<in> set digit_chars) s \<Longrightarrow> valid_digits s"
proof (induction s rule: valid_digits.induct)
  case 1
  then show ?case by simp
next
  case (2 c)
  then show ?case by simp
next
  case (3 c d r)
  then show ?case by (auto simp add: digit_chars_def)
qed

lemma valid_digits_chars:
  "valid_digits s \<Longrightarrow> c \<in> set s \<Longrightarrow> c \<in> set digit_chars \<or> c = CHR ''_''"
  by (induction s rule: valid_digits.induct) (auto split: if_splits)

lemma ascii_digits_count:
  "list_all (\<lambda>c. c \<in> set digit_chars) s \<Longrightarrow> count_digits s = length s"
  by (induction s) (auto simp add: count_digits_def digit_chars_def)

lemma strip_id:
  assumes "s \<noteq> []" "hd s \<notin> set chars" "last s \<notin> set chars"
  shows "strip chars s = s"
proof -
  have a: "dropWhile (\<lambda>c. c \<in> set chars) s = s"
    using assms by (cases s) auto
  have "dropWhile (\<lambda>c. c \<in> set chars) (rev s) = rev s"
    using assms by (cases "rev s") (auto simp add: last_rev [symmetric] simp del: last_rev)
  then show ?thesis by (simp add: strip_def rstrip_def a)
qed

lemma digit_like:
  assumes "x \<in> set (digit_chars @ superscript_digits)"
  shows "x \<notin> set str_whitespace \<and> x \<notin> set bytes_whitespace \<and> x \<noteq> CHR ''-'' \<and> x \<noteq> CHR ''+''
         \<and> x \<noteq> CHR ''_''"
  using assms
  by (auto simp add: digit_chars_def superscript_digits_def str_whitespace_def
      bytes_whitespace_def)

lemma isdigit_ends:
  assumes "isdigit s"
  shows "s \<noteq> []" "hd s \<in> set (digit_chars @ superscript_digits)"
    "last s \<in> set (digit_chars @ superscript_digits)"
  using assms by (auto simp add: isdigit_def list_all_iff)

text \<open>
  What \<^verbatim>\<open>int\<close> makes of a text that passes the digit test: nothing is stripped and there
  is no sign, so the text is a number exactly when all its characters are ASCII digits,
  and then the digit limit applies to its length.
\<close>

lemma int_of_digit_text:
  assumes "isdigit s"
  shows "int_of_text limit str_whitespace s =
           (if list_all (\<lambda>c. c \<in> set digit_chars) s \<and> \<not> over_digit_limit limit (length s)
            then Inr (digits_value s) else Inl ValueError)"
proof -
  have ne: "s \<noteq> []" and h: "hd s \<in> set (digit_chars @ superscript_digits)"
    and l: "last s \<in> set (digit_chars @ superscript_digits)"
    using isdigit_ends [OF assms] by auto
  obtain c r where s: "s = c # r" using ne by (cases s) auto
  with h have c: "c \<noteq> CHR ''-''" "c \<noteq> CHR ''+''" using digit_like [of c] by auto
  have st: "strip str_whitespace s = s"
    using strip_id [OF ne] digit_like [OF h] digit_like [OF l] by blast
  have body: "int_of_text limit str_whitespace s =
      (if valid_digits s \<and> \<not> over_digit_limit limit (count_digits s)
       then Inr (digits_value s) else Inl ValueError)"
    unfolding int_of_text_def st using s c by (simp add: Let_def)
  show ?thesis
  proof (cases "list_all (\<lambda>c. c \<in> set digit_chars) s")
    case True
    with ne have "valid_digits s" by (rule ascii_digits_valid)
    with True show ?thesis by (simp add: body ascii_digits_count)
  next
    case False
    then obtain x where x: "x \<in> set s" "x \<notin> set digit_chars"
      by (auto simp add: list_all_iff)
    with assms have "x \<in> set (digit_chars @ superscript_digits)"
      by (auto simp add: isdigit_def list_all_iff)
    with digit_like [of x] have "x \<noteq> CHR ''_''" by blast
    with x valid_digits_chars [of s x] have "\<not> valid_digits s" by blast
    with False show ?thesis by (simp add: body)
  qed
qed

text \<open>
  Claim C3, as the code has it, for text over the code points U+0000 to U+00FF. For a
  value that is not \<open>None\<close> and a \<open>BOOLEAN\<close> position: a boolean passes through; an integer
  becomes true when it is not zero. A text that passes the digit test of the interpreter
  is handed to \<^verbatim>\<open>int\<close>: when all its characters are ASCII digits and it is within the digit
  limit, it becomes true when the number is not zero; otherwise, that is with a
  superscript digit or over the limit, the coercion raises \<^verbatim>\<open>ValueError\<close>. A text that is
  \<open>true\<close> or \<open>false\<close> in some letter case becomes that boolean. Every other text is left as
  it is and no error is raised by the coercion.
\<close>

theorem boolean_coercion:
  "coerce_value lib ''BOOLEAN'' (VBool b) = Inr (VBool b)
   \<and> coerce_value lib ''BOOLEAN'' (VInt n) = Inr (VBool (n \<noteq> 0))
   \<and> coerce_value lib ''BOOLEAN'' (VStr s) =
       (if isdigit s then
          (if list_all (\<lambda>c. c \<in> set digit_chars) s
              \<and> \<not> over_digit_limit (int_max_str_digits lib) (length s)
           then Inr (VBool (digits_value s \<noteq> 0))
           else Inl ValueError)
        else if lower s = ''true'' then Inr (VBool True)
        else if lower s = ''false'' then Inr (VBool False)
        else Inr (VStr s))"
  by (simp add: coerce_value_def int_of_digit_text)

theorem boolean_coercion_witness:
  "coerce_value example_lib ''BOOLEAN'' (VInt 1) = Inr (VBool True)
   \<and> coerce_value example_lib ''BOOLEAN'' (VInt 0) = Inr (VBool False)
   \<and> coerce_value example_lib ''BOOLEAN'' (VStr ''1'') = Inr (VBool True)
   \<and> coerce_value example_lib ''BOOLEAN'' (VStr ''0'') = Inr (VBool False)
   \<and> coerce_value example_lib ''BOOLEAN'' (VStr [CHR 0xB2]) = Inl ValueError
   \<and> coerce_value example_lib ''BOOLEAN'' (VStr ''true'') = Inr (VBool True)
   \<and> coerce_value example_lib ''BOOLEAN'' (VStr ''TRUE'') = Inr (VBool True)
   \<and> coerce_value example_lib ''BOOLEAN'' (VStr ''false'') = Inr (VBool False)
   \<and> coerce_value example_lib ''BOOLEAN'' (VStr ''yes'') = Inr (VStr ''yes'')"
  using boolean_coercion [of example_lib True 1 "''1''"]
    boolean_coercion [of example_lib True 0 "''0''"]
    boolean_coercion [of example_lib True 0 "[CHR 0xB2]"]
    boolean_coercion [of example_lib True 0 "''true''"]
    boolean_coercion [of example_lib True 0 "''TRUE''"]
    boolean_coercion [of example_lib True 0 "''false''"]
    boolean_coercion [of example_lib True 0 "''yes''"]
  by (simp add: isdigit_def superscript_digits_def over_digit_limit_def digits_value_def
      digit_val_def lower_def char_tables)

text \<open>
  The claim as stated fails for the text \<open>maybe\<close>: the coercion of the value, and of a row
  that holds it in a \<open>BOOL\<close> column, returns the text unchanged instead of an error.
\<close>

theorem maybe_is_not_rejected:
  "coerce_value example_lib ''BOOLEAN'' (VStr ''maybe'') = Inr (VStr ''maybe'')
   \<and> coerce_row example_lib (table_info (single_column ''BOOL'' []) ''t'') [] [VStr ''maybe'']
       = Inr [VStr ''maybe'']"
  by (simp add: coerce_row_def none_literal_def single_column_def coerce_value_def
      convert_type_spec mapDeclaredType_def integer_pattern_def starts_with_ci_def
      isdigit_def superscript_digits_def lower_def char_tables)

lemma resolved_integer_family:
  assumes "snd (determine_column_type cursor table_name column_name declared) = Inr resolved"
      and "resolved \<in> set [''INTEGER'', ''BIGINT'', ''NUMERIC'']"
  shows "convert_type declared \<in> set [''INTEGER'', ''NUMERIC'']"
proof (cases "upper declared = ''INTEGER''")
  case True
  then show ?thesis
    using upper_INTEGER_pattern by (simp add: convert_type_spec mapDeclaredType_def)
next
  case False
  then have "resolved = convert_type declared"
    using assms(1) by (simp add: determine_column_type_def)
  with assms(2) convert_type_range [of declared] show ?thesis by auto
qed

lemma trunc_toward_zero:
  "\<bar>of_int (trunc r)\<bar> \<le> \<bar>r\<bar> \<and> \<bar>r\<bar> < \<bar>of_int (trunc r)\<bar> + 1
   \<and> (0 \<le> r \<longrightarrow> 0 \<le> trunc r) \<and> (r \<le> 0 \<longrightarrow> trunc r \<le> 0)"
  unfolding trunc_def by (auto; linarith)

lemma coerce_integer_family:
  assumes "col_type \<in> set [''INTEGER'', ''BIGINT'', ''NUMERIC'']"
  shows "coerce_value lib col_type v =
           (case py_int lib v of Inl e \<Rightarrow> Inl e | Inr n \<Rightarrow> Inr (VInt n))"
  using assms by (auto simp add: coerce_value_def)

lemma int_abc: "py_int lib (VStr ''abc'') = Inl ValueError"
  by (simp add: int_of_text_def strip_def rstrip_def str_whitespace_def digit_chars_def)

text \<open>
  Claim C10. For a column whose resolved type is \<open>INTEGER\<close>, \<open>BIGINT\<close> or \<open>NUMERIC\<close>, the
  coercion that \<^verbatim>\<open>insert_data\<close> applies to a finite float does not fail: the result is the
  integer obtained by dropping the fractional part, which lies between zero and the
  float and differs from it by less than one. The text \<open>abc\<close> at the same position is
  an error.
\<close>

theorem float_truncated_toward_zero:
  assumes "snd (determine_column_type cursor table_name column_name declared) = Inr resolved"
      and "resolved \<in> set [''INTEGER'', ''BIGINT'', ''NUMERIC'']"
  shows "coerce_value lib (convert_type declared) (VFloat (Finite r)) = Inr (VInt (trunc r))
       \<and> \<bar>of_int (trunc r)\<bar> \<le> \<bar>r\<bar> \<and> \<bar>r\<bar> < \<bar>of_int (trunc r)\<bar> + 1
       \<and> (0 \<le> r \<longrightarrow> 0 \<le> trunc r) \<and> (r \<le> 0 \<longrightarrow> trunc r \<le> 0)
       \<and> coerce_value lib (convert_type declared) (VStr ''abc'') = Inl ValueError"
proof -
  have "convert_type declared \<in> set [''INTEGER'', ''BIGINT'', ''NUMERIC'']"
    using resolved_integer_family [OF assms] by auto
  from coerce_integer_family [OF this] trunc_toward_zero [of r] int_abc
  show ?thesis by simp
qed

text \<open>
  The float written \<open>3.9\<close> is the rational \<open>8782019273372467 / 2^51\<close>; it becomes \<open>3\<close>, and
  its negative becomes \<open>-3\<close>.
\<close>

theorem float_truncated_toward_zero_witness:
  "coerce_value example_lib (convert_type ''INTEGER'')
      (VFloat (Finite (8782019273372467 / 2251799813685248))) = Inr (VInt 3)
   \<and> coerce_value example_lib (convert_type ''NUMERIC'')
      (VFloat (Finite (- (8782019273372467 / 2251799813685248)))) = Inr (VInt (- 3))
   \<and> coerce_value example_lib (convert_type ''INTEGER'') (VStr ''abc'') = Inl ValueError"
proof -
  have a: "snd (determine_column_type (single_column ''INTEGER'' []) ''t'' ''n'' ''INTEGER'')
             = Inr ''INTEGER''"
    by (simp add: determine_column_type_def upper_INTEGER single_column_def)
  have b: "snd (determine_column_type (single_column ''NUMERIC'' []) ''t'' ''n'' ''NUMERIC'')
             = Inr ''NUMERIC''"
    by (simp add: determine_column_type_def convert_type_spec mapDeclaredType_def
      integer_pattern_def starts_with_ci_def is_letter_def lower_def upper_def char_tables)
  have t1: "trunc (8782019273372467 / 2251799813685248) = 3"
    by (simp add: trunc_def floor_eq_iff)
  have t2: "trunc (- (8782019273372467 / 2251799813685248)) = - 3"
    by (simp add: trunc_def ceiling_eq_iff)
  show ?thesis
    using float_truncated_toward_zero [OF a, of example_lib "8782019273372467 / 2251799813685248"]
      float_truncated_toward_zero [OF b, of example_lib "- (8782019273372467 / 2251799813685248)"]
    by (simp add: t1 t2)
qed

section \<open>Coercion of one row\<close>

lemma coerce_columns_keeps:
  "coerce_columns lib cols k row = Inr out \<Longrightarrow>
     length out = length row \<and> (\<forall>i<length row. row ! i = VNone \<longrightarrow> out ! i = VNone)"
proof (induction cols arbitrary: k row)
  case Nil
  then show ?case by simp
next
  case (Cons col rest)
  show ?case
  proof (cases "row ! k = VNone")
    case True
    with Cons.prems have "coerce_columns lib rest (Suc k) row = Inr out"
      by (simp split: if_splits)
    from Cons.IH [OF this] show ?thesis .
  next
    case False
    with Cons.prems obtain v where
      step: "coerce_columns lib rest (Suc k) (row[k := v]) = Inr out"
      by (auto split: if_splits sum.splits)
    have len: "length out = length row"
      and keep: "\<forall>i<length row. (row[k := v]) ! i = VNone \<longrightarrow> out ! i = VNone"
      using Cons.IH [OF step] by simp_all
    have "out ! i = VNone" if "i < length row" "row ! i = VNone" for i
    proof -
      from that False have "i \<noteq> k" by auto
      then have "(row[k := v]) ! i = VNone" using that by simp
      with keep that show ?thesis by blast
    qed
    with len show ?thesis by blast
  qed
qed

lemma coerce_columns_skip:
  "row ! i = VNone \<Longrightarrow> k \<le> i \<Longrightarrow>
     coerce_columns lib (cols[i - k := col']) k row = coerce_columns lib cols k row"
proof (induction cols arbitrary: k row)
  case Nil
  then show ?case by simp
next
  case (Cons col rest)
  show ?case
  proof (cases "i = k")
    case True
    with Cons.prems show ?thesis by simp
  next
    case False
    with Cons.prems have lt: "Suc k \<le> i" by simp
    then have idx: "i - k = Suc (i - Suc k)" by simp
    have upd: "\<And>v. (row[k := v]) ! i = VNone"
      using False Cons.prems by simp
    show ?thesis
      unfolding idx
      using Cons.IH [OF Cons.prems(1) lt] Cons.IH [OF upd lt]
      by (simp split: sum.splits)
  qed
qed

text \<open>
  Claim C7. A position of the fetched row that holds the text \<open>None\<close> is \<open>None\<close> in the
  coerced row, whatever the column at that position is; and the declared type of that
  column plays no part: with any other column in its place, the coercion of the row
  gives the same result or the same error.
\<close>

theorem none_text_becomes_null:
  assumes "i < length row" and "row ! i = VStr ''None''"
  shows "(coerce_row lib columns additional_columns row = Inr out \<longrightarrow> out ! i = VNone)
       \<and> coerce_row lib (columns[i := col']) additional_columns row
           = coerce_row lib columns additional_columns row"
proof -
  have n: "none_literal row ! i = VNone" and len: "i < length (none_literal row)"
    using assms by (simp_all add: none_literal_def)
  have "coerce_columns lib (columns[i - 0 := col']) 0 (none_literal row)
          = coerce_columns lib columns 0 (none_literal row)"
    using n by (rule coerce_columns_skip) simp
  then have second: "coerce_row lib (columns[i := col']) additional_columns row
           = coerce_row lib columns additional_columns row"
    by (simp add: coerce_row_def)
  have "out ! i = VNone" if "coerce_row lib columns additional_columns row = Inr out"
  proof -
    from that obtain mid where mid: "coerce_columns lib columns 0 (none_literal row) = Inr mid"
      and out: "out = mid @ map (\<lambda>(col_name, col_info). default_value col_info) additional_columns"
      by (auto simp add: coerce_row_def split: sum.splits)
    from coerce_columns_keeps [OF mid] n len have "mid ! i = VNone" "i < length mid" by auto
    then show ?thesis by (simp add: out nth_append)
  qed
  with second show ?thesis by blast
qed

text \<open>
  A row whose second value is the text \<open>None\<close>, under a \<open>BOOL\<close> column and under an
  \<open>INTEGER\<close> column in its place.
\<close>

theorem none_text_becomes_null_witness:
  "(1::nat) < length [VStr ''x'', VStr ''None'']
   \<and> [VStr ''x'', VStr ''None''] ! 1 = VStr ''None''
   \<and> coerce_row example_lib [plain_column ''a'' ''TEXT'', plain_column ''b'' ''BOOL''] []
        [VStr ''x'', VStr ''None''] = Inr [VStr ''x'', VNone]
   \<and> [VStr ''x'', VNone] ! 1 = VNone
   \<and> coerce_row example_lib ([plain_column ''a'' ''TEXT'', plain_column ''b'' ''BOOL''][1 := plain_column ''b'' ''INTEGER'']) []
        [VStr ''x'', VStr ''None'']
      = coerce_row example_lib [plain_column ''a'' ''TEXT'', plain_column ''b'' ''BOOL''] []
        [VStr ''x'', VStr ''None'']"
proof -
  have r: "coerce_row example_lib [plain_column ''a'' ''TEXT'', plain_column ''b'' ''BOOL''] []
        [VStr ''x'', VStr ''None''] = Inr [VStr ''x'', VNone]"
    by (simp add: coerce_row_def none_literal_def plain_column_def coerce_value_def
      convert_type_spec mapDeclaredType_def integer_pattern_def starts_with_ci_def
      lower_def char_tables)
  have h1: "(1::nat) < length [VStr ''x'', VStr ''None'']" by simp
  have h2: "[VStr ''x'', VStr ''None''] ! 1 = VStr ''None''" by simp
  from none_text_becomes_null [OF h1 h2, of example_lib
      "[plain_column ''a'' ''TEXT'', plain_column ''b'' ''BOOL'']" "[]" "[VStr ''x'', VNone]"
      "plain_column ''b'' ''INTEGER''"] r
  show ?thesis by simp
qed

section \<open>The CREATE TABLE statement\<close>

lemma concat_join:
  "cs \<noteq> [] \<Longrightarrow> concat (map (\<lambda>c. c @ sep) cs) = join sep cs @ sep"
  by (induction sep cs rule: join.induct) simp_all

lemma rstrip_sep:
  assumes "body \<noteq> []" "last body \<notin> set chars" "set tail \<subseteq> set chars"
  shows "rstrip chars (body @ tail) = body"
proof -
  have "dropWhile (\<lambda>c. c \<in> set chars) (rev tail @ rev body) = rev body"
    using assms
    by (cases "rev body") (auto simp add: dropWhile_append last_rev [symmetric] simp del: last_rev)
  then show ?thesis by (simp add: rstrip_def)
qed

lemma native_columns_clauses:
  assumes "\<forall>col \<in> set columns.
      snd (determine_column_type cursor table_name (cname col) (ctype col)) = Inr (resolved col)"
  shows "native_columns cursor table_name columns query =
           Inr (query @ concat (map (\<lambda>col. column_clause resolved col @ '', '') columns))"
  using assms
proof (induction columns arbitrary: query)
  case Nil
  then show ?case by simp
next
  case (Cons col rest)
  have cl: "(let constraints_str = join '' '' (constraints_of col)
             in if constraints_str \<noteq> [] then '' '' @ constraints_str else constraints_str)
            = (if pk col \<noteq> 0 then '' PRIMARY KEY'' else [])
              @ (if notnull col \<noteq> 0 then '' NOT NULL'' else [])
              @ (case dflt_value col of
                   None \<Rightarrow> []
                 | Some d \<Rightarrow> if d \<noteq> [] then '' DEFAULT '' @ d else [])"
    by (simp add: constraints_of_def Let_def split: option.splits)
  from Cons show ?case
    using cl by (simp add: column_clause_def Let_def)
qed

lemma extra_columns_clauses:
  "extra_columns extras query = query @ concat (map (\<lambda>e. extra_clause e @ '', '') extras)"
  by (induction extras query rule: extra_columns.induct) (simp_all add: extra_clause_def)

lemma unique_clauses_clauses:
  "unique_clauses uniques query = query @ concat (map (\<lambda>u. unique_clause u @ '', '') uniques)"
  by (induction uniques query rule: unique_clauses.induct) (simp_all add: unique_clause_def)


lemma determine_range:
  assumes "snd (determine_column_type cursor table_name column_name column_type) = Inr ty"
  shows "ty \<in> set [''INTEGER'', ''BIGINT'', ''NUMERIC'', ''TEXT'', ''BYTEA'', ''DOUBLE PRECISION'', ''BOOLEAN'']"
proof (cases "upper column_type = ''INTEGER''")
  case True
  with assms show ?thesis
    by (auto simp add: determine_column_type_def Let_def split: if_splits sum.splits)
next
  case False
  with assms convert_type_range [of column_type] show ?thesis
    by (auto simp add: determine_column_type_def)
qed

lemma ends_clean_unique: "ends_clean (unique_clause u)"
  by (simp add: ends_clean_def unique_clause_def)

lemma ends_clean_extra: "ends_clean (extra_clause e)"
  using convert_type_range [of "atype (snd e)"]
  by (auto simp add: ends_clean_def extra_clause_def)

lemma ends_clean_column:
  assumes "resolved col \<in> set [''INTEGER'', ''BIGINT'', ''NUMERIC'', ''TEXT'', ''BYTEA'', ''DOUBLE PRECISION'', ''BOOLEAN'']"
      and "default_ends_clean col"
  shows "ends_clean (column_clause resolved col)"
proof (cases "dflt_value col")
  case None
  with assms(1) show ?thesis
    by (auto simp add: ends_clean_def column_clause_def)
next
  case (Some d)
  show ?thesis
  proof (cases "d = []")
    case True
    with Some assms(1) show ?thesis
      by (auto simp add: ends_clean_def column_clause_def)
  next
    case False
    with Some assms(2) show ?thesis
      by (simp add: ends_clean_def column_clause_def default_ends_clean_def)
  qed
qed

lemma last_join:
  "cs \<noteq> [] \<Longrightarrow> last cs \<noteq> [] \<Longrightarrow> join sep cs \<noteq> [] \<and> last (join sep cs) = last (last cs)"
  by (induction sep cs rule: join.induct) auto

text \<open>
  Claim C8. When every native column resolves to a type, \<^verbatim>\<open>create_table_query\<close> returns
  the statement \<open>CREATE TABLE IF NOT EXISTS\<close>, the table name, and between parentheses,
  separated by comma and blank: one clause per native column in source order (name,
  resolved type, then \<open>PRIMARY KEY\<close>, \<open>NOT NULL\<close>, \<open>DEFAULT\<close> with the literal as the source
  gives it, each when it applies), then one clause per extra column (name and type), then
  one \<open>UNIQUE\<close> clause per unique constraint with its columns in recorded order. The
  side condition concerns the only clause that could end in a comma or a blank: the
  default literal of the last native column when nothing follows it.
\<close>

theorem create_table_statement:
  assumes types: "\<forall>col \<in> set columns.
      snd (determine_column_type cursor table_name (cname col) (ctype col)) = Inr (resolved col)"
    and tail: "columns \<noteq> [] \<and> additional_columns = [] \<and> unique_constraints = []
                 \<longrightarrow> default_ends_clean (last columns)"
  shows "create_table_query cursor table_name columns additional_columns unique_constraints =
           Inr (buildCreateTable table_name resolved columns additional_columns unique_constraints)"
proof -
  define head where "head = ''CREATE TABLE IF NOT EXISTS '' @ table_name @ '' (''"
  define clauses where "clauses = map (column_clause resolved) columns
      @ map extra_clause additional_columns @ map unique_clause unique_constraints"
  define sep where "sep = '', ''"
  have head: "head \<noteq> []" "last head \<notin> set sep"
    by (simp_all add: head_def sep_def)
  have loops: "unique_clauses unique_constraints (extra_columns additional_columns
                 (head @ concat (map (\<lambda>col. column_clause resolved col @ sep) columns)))
               = head @ concat (map (\<lambda>c. c @ sep) clauses)"
    unfolding sep_def clauses_def
    by (simp add: extra_columns_clauses unique_clauses_clauses comp_def)
  have strip: "rstrip sep (head @ concat (map (\<lambda>c. c @ sep) clauses)) = head @ join sep clauses"
  proof (cases "clauses = []")
    case True
    have "rstrip sep (head @ []) = head"
      using head by (intro rstrip_sep) simp_all
    with True show ?thesis by simp
  next
    case False
    have "ends_clean (last clauses)"
    proof (cases "unique_constraints = []")
      case False
      then show ?thesis by (simp add: clauses_def last_map ends_clean_unique)
    next
      case u: True
      show ?thesis
      proof (cases "additional_columns = []")
        case False
        with u show ?thesis by (simp add: clauses_def last_map ends_clean_extra)
      next
        case e: True
        with u False have ne: "columns \<noteq> []" by (simp add: clauses_def)
        then have "last columns \<in> set columns" by simp
        with types have "snd (determine_column_type cursor table_name (cname (last columns))
            (ctype (last columns))) = Inr (resolved (last columns))" by blast
        from determine_range [OF this] tail ne u e
        have "ends_clean (column_clause resolved (last columns))"
          by (intro ends_clean_column) simp_all
        with ne u e show ?thesis by (simp add: clauses_def last_map)
      qed
    qed
    then have l: "last clauses \<noteq> []" "last (last clauses) \<notin> set sep"
      by (simp_all add: ends_clean_def sep_def)
    from last_join [OF False l(1), of sep] l(2)
    have body: "head @ join sep clauses \<noteq> []" "last (head @ join sep clauses) \<notin> set sep"
      by simp_all
    have "rstrip sep ((head @ join sep clauses) @ sep) = head @ join sep clauses"
      using body by (intro rstrip_sep) simp_all
    then show ?thesis
      by (simp add: concat_join [OF False])
  qed
  have "create_table_query cursor table_name columns additional_columns unique_constraints
          = Inr (rstrip sep (unique_clauses unique_constraints (extra_columns additional_columns
                 (head @ concat (map (\<lambda>col. column_clause resolved col @ sep) columns)))) @ '');'')"
    unfolding create_table_query_def native_columns_clauses [OF types] head_def sep_def
    by simp
  also have "\<dots> = Inr ((head @ join sep clauses) @ '');'')"
    unfolding loops strip ..
  also have "\<dots> = Inr (buildCreateTable table_name resolved columns additional_columns
      unique_constraints)"
    unfolding buildCreateTable_def head_def clauses_def sep_def by simp
  finally show ?thesis .
qed

text \<open>
  The table of the specification's round trip with an extra column and a unique index on
  \<open>(b, a)\<close>; and a table whose statement ends with the default literal of its last column.
\<close>

theorem create_table_statement_witness:
  "create_table_query (single_column ''INTEGER'' []) ''t''
     [\<lparr>cid = 0, cname = ''id'', ctype = ''INTEGER'', notnull = 0, dflt_value = None, pk = 1\<rparr>,
      plain_column ''name'' ''TEXT'', plain_column ''flag'' ''BOOL'']
     [(''src'', \<lparr>atype = ''TEXT'', default_value = VStr ''legacy''\<rparr>)]
     [(''ix'', [''b'', ''a''])]
   = Inr ''CREATE TABLE IF NOT EXISTS t (id INTEGER PRIMARY KEY, name TEXT, flag BOOLEAN, src TEXT, UNIQUE (b, a));''
   \<and> create_table_query (single_column ''INTEGER'' []) ''t''
     [plain_column ''id'' ''INTEGER'',
      \<lparr>cid = 1, cname = ''state'', ctype = ''TEXT'', notnull = 1, dflt_value = Some ''0'', pk = 0\<rparr>]
     [] []
   = Inr ''CREATE TABLE IF NOT EXISTS t (id INTEGER, state TEXT NOT NULL DEFAULT 0);''"
proof -
  let ?resolved = "\<lambda>col. convert_type (ctype col)"
  let ?cols1 = "[\<lparr>cid = 0, cname = ''id'', ctype = ''INTEGER'', notnull = 0, dflt_value = None, pk = 1\<rparr>,
      plain_column ''name'' ''TEXT'', plain_column ''flag'' ''BOOL'']"
  let ?cols2 = "[plain_column ''id'' ''INTEGER'',
      \<lparr>cid = 1, cname = ''state'', ctype = ''TEXT'', notnull = 1, dflt_value = Some ''0'', pk = 0\<rparr>]"
  let ?extras = "[(''src'', \<lparr>atype = ''TEXT'', default_value = VStr ''legacy''\<rparr>)]"
  let ?uniques = "[(''ix'', [''b'', ''a''])]"
  have t1: "\<forall>col \<in> set ?cols1. snd (determine_column_type (single_column ''INTEGER'' []) ''t''
      (cname col) (ctype col)) = Inr (?resolved col)"
    by code_simp
  have t2: "\<forall>col \<in> set ?cols2. snd (determine_column_type (single_column ''INTEGER'' []) ''t''
      (cname col) (ctype col)) = Inr (?resolved col)"
    by code_simp
  have d1: "?cols1 \<noteq> [] \<and> ?extras = [] \<and> ?uniques = [] \<longrightarrow> default_ends_clean (last ?cols1)"
    by simp
  have d2: "?cols2 \<noteq> [] \<and> [] = ([] :: (string \<times> additional_column) list)
      \<and> [] = ([] :: (string \<times> string list) list) \<longrightarrow> default_ends_clean (last ?cols2)"
    by (simp add: default_ends_clean_def)
  have b1: "buildCreateTable ''t'' ?resolved ?cols1 ?extras ?uniques
    = ''CREATE TABLE IF NOT EXISTS t (id INTEGER PRIMARY KEY, name TEXT, flag BOOLEAN, src TEXT, UNIQUE (b, a));''"
    by code_simp
  have b2: "buildCreateTable ''t'' ?resolved ?cols2 [] []
    = ''CREATE TABLE IF NOT EXISTS t (id INTEGER, state TEXT NOT NULL DEFAULT 0);''"
    by code_simp
  show ?thesis
    using create_table_statement [OF t1 d1] create_table_statement [OF t2 d2]
    unfolding b1 b2 by simp
qed

section \<open>The run and its exit status\<close>

lemma no_row_error_append:
  "no_row_error (xs @ ys) \<longleftrightarrow> no_row_error xs \<and> no_row_error ys"
  by (simp add: no_row_error_def)











lemma plan_tables_last:
  "plan_tables cursor additional_columns tables columns queries = Inr (columns', queries') \<Longrightarrow>
     columns' = (if tables = [] then columns else Some (get_table_schema cursor (last tables)))
     \<and> length queries' = length queries + length tables"
proof (induction tables arbitrary: columns queries)
  case Nil
  then show ?case by simp
next
  case (Cons table_name rest)
  from Cons.prems obtain q where
    step: "plan_tables cursor additional_columns rest (Some (get_table_schema cursor table_name))
             (queries @ [q]) = Inr (columns', queries')"
    by (auto simp add: Let_def split: sum.splits)
  from Cons.IH [OF step] show ?case by auto
qed








section \<open>Where the commits fall\<close>

lemma insert_rows_accepted:
  assumes "\<forall>row \<in> set rows. coerce_row lib columns additional_columns row = Inr (coerced row)"
  shows "insert_rows accept_all print lib query columns additional_columns j rows evs =
           (evs @ concat (map (\<lambda>(k, row). Executed query (Some (coerced row))
                                  # (if k mod 16384 = 0 then [Commit] else []))
                            (zip [j ..< j + length rows] rows)),
            Returned)"
  using assms
proof (induction rows arbitrary: j evs)
  case Nil
  then show ?case by simp
next
  case (Cons row rows)
  have upt: "[j ..< j + length (row # rows)] = j # [Suc j ..< Suc j + length rows]"
    by (subst upt_rec) simp
  from Cons.prems have r: "coerce_row lib columns additional_columns row = Inr (coerced row)"
    and rest: "\<forall>row \<in> set rows. coerce_row lib columns additional_columns row = Inr (coerced row)"
    by simp_all
  show ?case
    unfolding upt using r Cons.IH [OF rest] by (simp add: accept_all_def Let_def)
qed

text \<open>
  Claim C4, at a table of two rows. The index that \<^verbatim>\<open>enumerate\<close> gives the first row is
  0, which the test \<^verbatim>\<open>j % 16384 == 0\<close> accepts: a commit follows the first row, one that
  the claim does not allow, and then the commit after the last row. By
  \<open>insert_rows_accepted\<close> the commits inside the loop follow the rows numbered 1, 16385,
  32769 and so on, counting from 1, and none follows row 16384.
\<close>

theorem commit_follows_first_row:
  "sqlite_to_postgresql (single_column ''INTEGER'' [VInt 1, VInt 2]) accept_all print_all
     example_lib [] ''y''
     = ([Executed ''CREATE TABLE IF NOT EXISTS t (n INTEGER);'' None,
         Executed ''INSERT INTO t (n) VALUES (%s)'' (Some [VInt 1]), Commit,
         Executed ''INSERT INTO t (n) VALUES (%s)'' (Some [VInt 2]), Commit,
         Close], Returned)"
  by code_simp

section \<open>Which columns the copy uses\<close>

lemma copy_uses_last_schema:
  assumes "plan_tables cursor additional_columns (get_tables cursor) None [] = Inr (columns, queries)"
      and "get_tables cursor \<noteq> []"
  shows "columns = Some (get_table_schema cursor (last (get_tables cursor)))"
  using plan_tables_last [OF assms(1)] assms(2) by simp

text \<open>
  Claim C1, at a source with two tables. The schema of \<open>t1\<close> is the text column \<open>a\<close>,
  that of \<open>t2\<close> the integer column \<open>n\<close>. The row of \<open>t1\<close> is inserted into \<open>t1\<close> under the
  column list of \<open>t2\<close> and coerced as an integer: the text \<open>007\<close> arrives as the number 7
  under a column \<open>n\<close> that \<open>t1\<close> does not have. By \<open>copy_uses_last_schema\<close> every table is
  copied with the schema of the last table.
\<close>

theorem insert_uses_columns_of_last_table:
  "get_table_schema two_tables ''t1'' = [plain_column ''a'' ''TEXT'']
   \<and> get_table_schema two_tables ''t2'' = [plain_column ''n'' ''INTEGER'']
   \<and> sqlite_to_postgresql two_tables accept_all print_all example_lib [] ''y''
     = ([Executed ''CREATE TABLE IF NOT EXISTS t1 (a TEXT);'' None,
         Executed ''INSERT INTO t1 (n) VALUES (%s)'' (Some [VInt 7]), Commit, Commit,
         Executed ''CREATE TABLE IF NOT EXISTS t2 (n INTEGER);'' None,
         Close], Returned)"
  by code_simp

end
